theory Spec2Isabelle
  imports Complex_Main
begin

section \<open>JavaScript values\<close>

text \<open>
  The predicates of \<^verbatim>\<open>src/typeis.js\<close> inspect one arbitrary JavaScript value. A value
  is a primitive or a reference to an object of the heap. Numbers are IEEE doubles; they
  are modelled by their five shapes: not-a-number, the two infinities, negative zero, and
  a finite value (\<open>Fin 0\<close> is positive zero). Finite values are kept as exact rationals:
  the remainder operator is exact on doubles, and the only quotients the module computes
  are \<open>1 / a\<close> and \<open>1 / b\<close> for operands that are already known to be raw-equal, so
  rounding cannot change the outcome of any comparison made here.
\<close>

type_synonym addr = nat

datatype jsnum = NaN | PosInf | NegInf | NegZero | Fin rat

datatype jsval =
    Undefined
  | Null
  | Bool bool
  | Num jsnum
  | Str string
  | BigInt int
  | Symbol nat
  | Ref addr

datatype error = TypeError | ReferenceError

text \<open>
  An object has a prototype link (\<open>None\<close> is \<^verbatim>\<open>null\<close>), may be callable, may be an
  array exotic object, and owns data properties: key, value and the enumerable flag, the
  first entry of a key being the property. Accessor properties are outside the model.

  An object may also be a proxy. A live proxy has a target object; a revoked proxy has
  lost its target and its handler. A proxy keeps the \<open>callable\<close> flag it was created
  with (that is what \<^verbatim>\<open>typeof\<close> reads); its other fields play no role. The handler of
  a live proxy is taken to define no traps, so that every operation is forwarded to the
  target; \<^verbatim>\<open>typeof\<close> and \<^verbatim>\<open>Array.isArray\<close> never consult the handler's traps anyway.
\<close>

datatype proxy_slot = NotProxy | LiveProxy addr | RevokedProxy

record jsobj =
  proto :: "addr option"
  callable :: bool
  is_array :: bool
  props :: "(string \<times> jsval \<times> bool) list"
  proxy :: proxy_slot

text \<open>
  The realm a call runs in: the heap, the prototype objects that primitives delegate to,
  and the bindings of the global object. Identifiers that name standard built-ins
  (\<^verbatim>\<open>isFinite\<close>, \<^verbatim>\<open>Infinity\<close>, \<^verbatim>\<open>Array\<close>, \<^verbatim>\<open>Object\<close>) are read as those built-ins; every
  other free identifier of the module is looked up in \<open>globals\<close>.
\<close>

record js_state =
  heap :: "addr \<Rightarrow> jsobj"
  booleanProto :: addr
  numberProto :: addr
  stringProto :: addr
  bigintProto :: addr
  symbolProto :: addr
  globals :: "string \<Rightarrow> jsval option"

section \<open>Operators of the language\<close>

fun unsigned_zero :: "jsnum \<Rightarrow> jsnum" where
  "unsigned_zero NegZero = Fin 0"
| "unsigned_zero n = n"

text \<open>\<^verbatim>\<open>===\<close> on two numbers: NaN equals nothing, the two zeros are equal.\<close>

fun num_eq :: "jsnum \<Rightarrow> jsnum \<Rightarrow> bool" where
  "num_eq NaN y = False"
| "num_eq x NaN = False"
| "num_eq x y = (unsigned_zero x = unsigned_zero y)"

text \<open>\<^verbatim>\<open>===\<close>: values of different kinds differ, objects are compared by reference.\<close>

fun strict_eq :: "jsval \<Rightarrow> jsval \<Rightarrow> bool" where
  "strict_eq (Num x) (Num y) = num_eq x y"
| "strict_eq a b = (a = b)"

fun is_neg :: "jsnum \<Rightarrow> bool" where
  "is_neg NegInf = True"
| "is_neg NegZero = True"
| "is_neg (Fin q) = (q < 0)"
| "is_neg n = False"

fun is_zero :: "jsnum \<Rightarrow> bool" where
  "is_zero NegZero = True"
| "is_zero (Fin q) = (q = 0)"
| "is_zero n = False"

fun is_inf :: "jsnum \<Rightarrow> bool" where
  "is_inf PosInf = True"
| "is_inf NegInf = True"
| "is_inf n = False"

fun magnitude :: "jsnum \<Rightarrow> rat" where
  "magnitude (Fin q) = \<bar>q\<bar>"
| "magnitude n = 0"

definition signed_zero :: "bool \<Rightarrow> jsnum" where
  "signed_zero neg = (if neg then NegZero else Fin 0)"

definition signed_inf :: "bool \<Rightarrow> jsnum" where
  "signed_inf neg = (if neg then NegInf else PosInf)"

definition signed_fin :: "bool \<Rightarrow> rat \<Rightarrow> jsnum" where
  "signed_fin neg q = (if q = 0 then signed_zero neg else Fin (if neg then - q else q))"

text \<open>\<^verbatim>\<open>x / y\<close> on numbers.\<close>

definition num_div :: "jsnum \<Rightarrow> jsnum \<Rightarrow> jsnum" where
  "num_div x y =
     (if x = NaN \<or> y = NaN then NaN
      else if is_inf x then (if is_inf y then NaN else signed_inf (is_neg x \<noteq> is_neg y))
      else if is_inf y then signed_zero (is_neg x \<noteq> is_neg y)
      else if is_zero y then (if is_zero x then NaN else signed_inf (is_neg x \<noteq> is_neg y))
      else signed_fin (is_neg x \<noteq> is_neg y) (magnitude x / magnitude y))"

text \<open>\<^verbatim>\<open>x % y\<close> on numbers: the result takes the sign of the dividend.\<close>

definition num_rem :: "jsnum \<Rightarrow> jsnum \<Rightarrow> jsnum" where
  "num_rem x y =
     (if x = NaN \<or> y = NaN \<or> is_inf x \<or> is_zero y then NaN
      else if is_inf y \<or> is_zero x then x
      else signed_fin (is_neg x)
             (magnitude x - magnitude y * of_int \<lfloor>magnitude x / magnitude y\<rfloor>))"

text \<open>
  The arithmetic operators on values. The module applies them to numbers only (each use
  is behind \<open>isNumber\<close> or behind \<^verbatim>\<open>===\<close> with a number), so the coercion of other
  kinds is not modelled: the result there is NaN.
\<close>

fun js_div :: "jsval \<Rightarrow> jsval \<Rightarrow> jsval" where
  "js_div (Num x) (Num y) = Num (num_div x y)"
| "js_div a b = Num NaN"

fun js_rem :: "jsval \<Rightarrow> jsval \<Rightarrow> jsval" where
  "js_rem (Num x) (Num y) = Num (num_rem x y)"
| "js_rem a b = Num NaN"

text \<open>\<^verbatim>\<open>typeof\<close>.\<close>

fun typeof :: "js_state \<Rightarrow> jsval \<Rightarrow> string" where
  "typeof st Undefined = ''undefined''"
| "typeof st Null = ''object''"
| "typeof st (Bool b) = ''boolean''"
| "typeof st (Num n) = ''number''"
| "typeof st (Str s) = ''string''"
| "typeof st (BigInt i) = ''bigint''"
| "typeof st (Symbol k) = ''symbol''"
| "typeof st (Ref a) = (if callable (heap st a) then ''function'' else ''object'')"

text \<open>The global \<^verbatim>\<open>isFinite\<close>; the module calls it on numbers only.\<close>

fun isFinite :: "jsval \<Rightarrow> bool" where
  "isFinite (Num NaN) = False"
| "isFinite (Num PosInf) = False"
| "isFinite (Num NegInf) = False"
| "isFinite (Num n) = True"
| "isFinite v = False"

section \<open>The predicates of typeis.js\<close>

definition isDefined :: "jsval \<Rightarrow> bool" where
  "isDefined v = (\<not> strict_eq v Null \<and> \<not> strict_eq v Undefined)"

definition isEmpty :: "jsval \<Rightarrow> bool" where
  "isEmpty v = (strict_eq v Undefined \<or> strict_eq v Null)"

definition isNull :: "jsval \<Rightarrow> bool" where
  "isNull v = strict_eq v Null"

definition isUndefined :: "jsval \<Rightarrow> bool" where
  "isUndefined v = strict_eq v Undefined"

definition isNumber :: "js_state \<Rightarrow> jsval \<Rightarrow> bool" where
  "isNumber st v = (typeof st v = ''number'' \<and> isFinite v)"

definition isFunction :: "js_state \<Rightarrow> jsval \<Rightarrow> bool" where
  "isFunction st v = (typeof st v = ''function'')"

definition isFiniteNumber :: "js_state \<Rightarrow> jsval \<Rightarrow> bool" where
  "isFiniteNumber st v = (typeof st v = ''number'' \<and> isFinite v)"

text \<open>
  \<^verbatim>\<open>isEquals(a, b)\<close>: the numeric branch is taken when \<open>isNumber a\<close>; inside it the
  reciprocals are compared when the operands are raw-equal.
\<close>

definition isEquals :: "js_state \<Rightarrow> jsval \<Rightarrow> jsval \<Rightarrow> bool" where
  "isEquals st a b =
     (if isNumber st a then
        (if strict_eq a b
         then strict_eq (js_div (Num (Fin 1)) a) (js_div (Num (Fin 1)) b)
         else (\<not> strict_eq a a \<and> \<not> strict_eq b b))
      else strict_eq a b)"

section \<open>Property access and the prototype chain\<close>

text \<open>
  Results of operations that can throw are sums (\<open>Inl\<close> the exception). Operations that
  walk a prototype chain or a chain of proxy targets are loops; a walk that never ends
  has no result, the value \<open>None\<close>.
\<close>

type_synonym 'a result = "(error + 'a) option"

definition ret :: "'a \<Rightarrow> 'a result" where
  "ret x = Some (Inr x)"

definition throw :: "error \<Rightarrow> 'a result" where
  "throw e = Some (Inl e)"

definition and_then :: "'a result \<Rightarrow> ('a \<Rightarrow> 'b result) \<Rightarrow> 'b result" where
  "and_then m f = (case m of None \<Rightarrow> None | Some (Inl e) \<Rightarrow> Some (Inl e) | Some (Inr x) \<Rightarrow> f x)"

definition own_property :: "jsobj \<Rightarrow> string \<Rightarrow> (jsval \<times> bool) option" where
  "own_property ob k = map_of (props ob) k"

text \<open>
  The object an operation on \<open>a\<close> is forwarded to: the first object behind the live
  proxies that is not itself a live proxy.
\<close>

partial_function (option) unwrap :: "(addr \<Rightarrow> jsobj) \<Rightarrow> addr \<Rightarrow> addr option" where
  "unwrap h a =
     (case proxy (h a) of
        LiveProxy t \<Rightarrow> unwrap h t
      | NotProxy \<Rightarrow> Some a
      | RevokedProxy \<Rightarrow> Some a)"

text \<open>
  An operation that reads the object behind the proxies: every internal method of a
  revoked proxy throws a TypeError.
\<close>

definition behind_proxies :: "(addr \<Rightarrow> jsobj) \<Rightarrow> addr \<Rightarrow> (jsobj \<Rightarrow> 'a) \<Rightarrow> 'a result" where
  "behind_proxies h a f =
     (case unwrap h a of
        None \<Rightarrow> None
      | Some b \<Rightarrow> if proxy (h b) = RevokedProxy then throw TypeError else ret (f (h b)))"

text \<open>
  The \<^verbatim>\<open>[[Get]]\<close> of an object: own property first, then the prototype; a live proxy
  forwards to its target, a revoked proxy throws.
\<close>

partial_function (option) proto_lookup :: "(addr \<Rightarrow> jsobj) \<Rightarrow> addr \<Rightarrow> string \<Rightarrow> jsval result" where
  "proto_lookup h a k =
     (case proxy (h a) of
        RevokedProxy \<Rightarrow> Some (Inl TypeError)
      | LiveProxy t \<Rightarrow> proto_lookup h t k
      | NotProxy \<Rightarrow>
          (case own_property (h a) k of
             Some (v, e) \<Rightarrow> Some (Inr v)
           | None \<Rightarrow>
               (case proto (h a) of
                  None \<Rightarrow> Some (Inr Undefined)
                | Some p \<Rightarrow> proto_lookup h p k)))"

fun digit_char :: "nat \<Rightarrow> char" where
  "digit_char n = (''0123456789'' ! (n mod 10))"

fun decimal :: "nat \<Rightarrow> string" where
  "decimal n = (if n < 10 then [digit_char n] else decimal (n div 10) @ [digit_char n])"

text \<open>The index keys \<^verbatim>\<open>"0"\<close>, \<^verbatim>\<open>"1"\<close>, ... of a string primitive.\<close>

definition string_keys :: "string \<Rightarrow> string list" where
  "string_keys s = map decimal [0..<length s]"

definition of_length :: "nat \<Rightarrow> jsval" where
  "of_length n = Num (Fin (of_nat n))"

text \<open>
  \<^verbatim>\<open>value.key\<close>: a TypeError on \<^verbatim>\<open>undefined\<close> and \<^verbatim>\<open>null\<close>; a primitive answers from
  its own properties (a string has \<^verbatim>\<open>length\<close> and its indices) and then from the
  prototype of its kind.
\<close>

fun Get :: "js_state \<Rightarrow> jsval \<Rightarrow> string \<Rightarrow> jsval result" where
  "Get st Undefined k = throw TypeError"
| "Get st Null k = throw TypeError"
| "Get st (Bool b) k = proto_lookup (heap st) (booleanProto st) k"
| "Get st (Num n) k = proto_lookup (heap st) (numberProto st) k"
| "Get st (Str s) k =
     (if k = ''length'' then ret (of_length (length s))
      else (case find (\<lambda>i. decimal i = k) [0..<length s] of
              Some i \<Rightarrow> ret (Str [s ! i])
            | None \<Rightarrow> proto_lookup (heap st) (stringProto st) k))"
| "Get st (BigInt i) k = proto_lookup (heap st) (bigintProto st) k"
| "Get st (Symbol y) k = proto_lookup (heap st) (symbolProto st) k"
| "Get st (Ref a) k = proto_lookup (heap st) a k"

text \<open>
  \<^verbatim>\<open>Object.keys(value)\<close>: the own enumerable string keys, after the conversion of a
  primitive to its wrapper object.
\<close>

definition enumerable_keys :: "jsobj \<Rightarrow> string list" where
  "enumerable_keys ob =
     filter (\<lambda>k. case own_property ob k of Some (v, e) \<Rightarrow> e | None \<Rightarrow> False)
       (remdups (map fst (props ob)))"

fun Object_keys :: "js_state \<Rightarrow> jsval \<Rightarrow> string list result" where
  "Object_keys st Undefined = throw TypeError"
| "Object_keys st Null = throw TypeError"
| "Object_keys st (Str s) = ret (string_keys s)"
| "Object_keys st (Ref a) = behind_proxies (heap st) a enumerable_keys"
| "Object_keys st v = ret []"

text \<open>\<^verbatim>\<open>Object.getPrototypeOf(value)\<close>.\<close>

definition proto_value :: "jsobj \<Rightarrow> jsval" where
  "proto_value ob = (case proto ob of None \<Rightarrow> Null | Some p \<Rightarrow> Ref p)"

fun getPrototypeOf :: "js_state \<Rightarrow> jsval \<Rightarrow> jsval result" where
  "getPrototypeOf st Undefined = throw TypeError"
| "getPrototypeOf st Null = throw TypeError"
| "getPrototypeOf st (Bool b) = ret (Ref (booleanProto st))"
| "getPrototypeOf st (Num n) = ret (Ref (numberProto st))"
| "getPrototypeOf st (Str s) = ret (Ref (stringProto st))"
| "getPrototypeOf st (BigInt i) = ret (Ref (bigintProto st))"
| "getPrototypeOf st (Symbol y) = ret (Ref (symbolProto st))"
| "getPrototypeOf st (Ref a) = behind_proxies (heap st) a proto_value"

text \<open>The condition of \<^verbatim>\<open>while (current)\<close>: conversion to a boolean.\<close>

fun truthy :: "jsval \<Rightarrow> bool" where
  "truthy Undefined = False"
| "truthy Null = False"
| "truthy (Bool b) = b"
| "truthy (Num n) = (n \<noteq> NaN \<and> \<not> is_zero n)"
| "truthy (Str s) = (s \<noteq> [])"
| "truthy (BigInt i) = (i \<noteq> 0)"
| "truthy (Symbol y) = True"
| "truthy (Ref a) = True"

section \<open>The predicates that read properties\<close>

text \<open>
  \<^verbatim>\<open>getConstructorName\<close>: the \<^verbatim>\<open>name\<close> of \<^verbatim>\<open>value.constructor\<close> when the value is
  defined and that constructor is a function, else \<^verbatim>\<open>null\<close>.
\<close>

definition getConstructorName :: "js_state \<Rightarrow> jsval \<Rightarrow> jsval result" where
  "getConstructorName st v =
     (if isDefined v then
        and_then (Get st v ''constructor'')
          (\<lambda>c. if isFunction st c then Get st c ''name'' else ret Null)
      else ret Null)"

text \<open>\<^verbatim>\<open>isPromise\<close>: \<^verbatim>\<open>isFunction(value) && (getConstructorName(value) === "Promise")\<close>.\<close>

definition isPromise :: "js_state \<Rightarrow> jsval \<Rightarrow> bool result" where
  "isPromise st v =
     (if isFunction st v then
        and_then (getConstructorName st v) (\<lambda>n. ret (strict_eq n (Str ''Promise'')))
      else ret False)"

text \<open>
  \<^verbatim>\<open>Array.isArray\<close>, which \<^verbatim>\<open>isArray\<close> is bound to (the \<^verbatim>\<open>instanceof\<close> fallback after
  \<^verbatim>\<open>||\<close> is taken only by an engine without the built-in). It is false on a value
  that is not an object; on a proxy it asks the target, and it throws a TypeError on a
  revoked proxy.
\<close>

fun isArray :: "js_state \<Rightarrow> jsval \<Rightarrow> bool result" where
  "isArray st (Ref a) = behind_proxies (heap st) a is_array"
| "isArray st v = ret False"

text \<open>
  \<^verbatim>\<open>isFloat(params)\<close>: the body never reads \<^verbatim>\<open>params\<close>. It reads the identifier
  \<^verbatim>\<open>value\<close>, which is bound nowhere in the module, so the lookup goes to the global
  bindings and throws a ReferenceError when there is none.
\<close>

definition isFloat :: "js_state \<Rightarrow> jsval \<Rightarrow> error + bool" where
  "isFloat st params =
     (case globals st ''value'' of
        None \<Rightarrow> Inl ReferenceError
      | Some v \<Rightarrow> Inr (isNumber st v \<and> \<not> strict_eq (js_rem v (Num (Fin 1))) (Num (Fin 0))))"

text \<open>
  \<^verbatim>\<open>isZeroValue\<close>: the four disjuncts of the source, evaluated left to right and stopping
  at the first that holds.
\<close>

definition isZeroValue :: "js_state \<Rightarrow> jsval \<Rightarrow> bool result" where
  "isZeroValue st v =
     (if isEmpty v then ret True
      else if strict_eq v (Num (Fin 0)) then ret True
      else and_then (Get st v ''length'')
        (\<lambda>len. if strict_eq len (Num (Fin 0)) then ret True
          else and_then (Object_keys st v)
            (\<lambda>ks. ret (strict_eq (of_length (length ks)) (Num (Fin 0))))))"

definition isNonZeroValue :: "js_state \<Rightarrow> jsval \<Rightarrow> bool result" where
  "isNonZeroValue st v = and_then (isZeroValue st v) (\<lambda>z. ret (\<not> z))"

text \<open>
  \<^verbatim>\<open>isExtendOf\<close>: the loop starts at \<^verbatim>\<open>subClass.prototype\<close>, compares the current
  object with \<^verbatim>\<open>superClass.prototype\<close> before it moves on, and stops at the first falsy
  link.
\<close>

partial_function (option) isExtendOf_loop :: "js_state \<Rightarrow> jsval \<Rightarrow> jsval \<Rightarrow> (error + bool) option" where
  "isExtendOf_loop st current superClass =
     (if truthy current then
        (case Get st superClass ''prototype'' of
           None \<Rightarrow> None
         | Some (Inl e) \<Rightarrow> Some (Inl e)
         | Some (Inr sp) \<Rightarrow>
             if strict_eq current sp then Some (Inr True)
             else (case getPrototypeOf st current of
                     None \<Rightarrow> None
                   | Some (Inl e) \<Rightarrow> Some (Inl e)
                   | Some (Inr next) \<Rightarrow> isExtendOf_loop st next superClass))
      else Some (Inr False))"

definition isExtendOf :: "js_state \<Rightarrow> jsval \<Rightarrow> jsval \<Rightarrow> bool result" where
  "isExtendOf st subClass superClass =
     and_then (Get st subClass ''prototype'') (\<lambda>current. isExtendOf_loop st current superClass)"


section \<open>The dispatcher of index.js\<close>

text \<open>
  \<^verbatim>\<open>typeis\<close>: an exception of \<^verbatim>\<open>isArray\<close> is not caught, so it is the outcome of the
  call.
\<close>

definition typeis :: "js_state \<Rightarrow> jsval \<Rightarrow> string result" where
  "typeis st v =
     (if isNull v then ret ''null''
      else and_then (isArray st v)
        (\<lambda>arr. if arr then ret ''array'' else ret (typeof st v)))"

text \<open>
  The chain of proxy targets from \<open>a\<close> ends at \<open>b\<close>, the first object that is not a live
  proxy. Such a \<open>b\<close> exists exactly when the chain is finite, as it is for every proxy a
  program can build (the target exists before its proxy).
\<close>

inductive unwraps :: "(addr \<Rightarrow> jsobj) \<Rightarrow> addr \<Rightarrow> addr \<Rightarrow> bool" where
  unwraps_object: "proxy (h a) = NotProxy \<Longrightarrow> unwraps h a a"
| unwraps_revoked: "proxy (h a) = RevokedProxy \<Longrightarrow> unwraps h a a"
| unwraps_live: "proxy (h a) = LiveProxy t \<Longrightarrow> unwraps h t b \<Longrightarrow> unwraps h a b"

declare unwrap.simps [code]

declare proto_lookup.simps [code]

declare isExtendOf_loop.simps [code]

section \<open>A realm with the standard objects\<close>

text \<open>
  A concrete heap to run the functions on: the standard constructors with their
  prototype objects, laid out as the language defines them, and a few user objects. A
  hidden property is not enumerable. The host defines no global named \<^verbatim>\<open>value\<close>.
\<close>

definition ordinary :: "addr option \<Rightarrow> (string \<times> jsval \<times> bool) list \<Rightarrow> jsobj" where
  "ordinary p ps =
     \<lparr>proto = p, callable = False, is_array = False, props = ps, proxy = NotProxy\<rparr>"

definition array_object :: "addr option \<Rightarrow> (string \<times> jsval \<times> bool) list \<Rightarrow> jsobj" where
  "array_object p ps =
     \<lparr>proto = p, callable = False, is_array = True, props = ps, proxy = NotProxy\<rparr>"

definition function_object :: "addr option \<Rightarrow> (string \<times> jsval \<times> bool) list \<Rightarrow> jsobj" where
  "function_object p ps =
     \<lparr>proto = p, callable = True, is_array = False, props = ps, proxy = NotProxy\<rparr>"

text \<open>A proxy that was created over an object that is not callable.\<close>

definition proxy_object :: "proxy_slot \<Rightarrow> jsobj" where
  "proxy_object sl =
     \<lparr>proto = None, callable = False, is_array = False, props = [], proxy = sl\<rparr>"

definition hidden :: "string \<Rightarrow> jsval \<Rightarrow> string \<times> jsval \<times> bool" where
  "hidden k v = (k, v, False)"

definition shown :: "string \<Rightarrow> jsval \<Rightarrow> string \<times> jsval \<times> bool" where
  "shown k v = (k, v, True)"

text \<open>
  A constructor function: its prototype link, its name, its number of parameters and its
  \<^verbatim>\<open>prototype\<close> object.
\<close>

definition constructor_object :: "addr \<Rightarrow> string \<Rightarrow> nat \<Rightarrow> addr \<Rightarrow> jsobj" where
  "constructor_object p name arity pr =
     function_object (Some p)
       [hidden ''length'' (of_length arity), hidden ''name'' (Str name), hidden ''prototype'' (Ref pr)]"

definition realm_objects :: "jsobj list" where
  "realm_objects =
     [ \<comment> \<open>0: Object.prototype, 1: Object\<close>
       ordinary None [hidden ''constructor'' (Ref 1)],
       constructor_object 3 ''Object'' 1 0,
       \<comment> \<open>2: Function, 3: Function.prototype\<close>
       constructor_object 3 ''Function'' 1 3,
       function_object (Some 0)
         [hidden ''length'' (of_length 0), hidden ''name'' (Str []), hidden ''constructor'' (Ref 2)],
       \<comment> \<open>4: Number.prototype, 5: Number\<close>
       ordinary (Some 0) [hidden ''constructor'' (Ref 5)],
       constructor_object 3 ''Number'' 1 4,
       \<comment> \<open>6: String.prototype, 7: String\<close>
       ordinary (Some 0) [hidden ''length'' (of_length 0), hidden ''constructor'' (Ref 7)],
       constructor_object 3 ''String'' 1 6,
       \<comment> \<open>8: Boolean.prototype, 9: Boolean\<close>
       ordinary (Some 0) [hidden ''constructor'' (Ref 9)],
       constructor_object 3 ''Boolean'' 1 8,
       \<comment> \<open>10: Symbol.prototype, 11: Symbol\<close>
       ordinary (Some 0) [hidden ''constructor'' (Ref 11)],
       constructor_object 3 ''Symbol'' 0 10,
       \<comment> \<open>12: BigInt.prototype, 13: BigInt\<close>
       ordinary (Some 0) [hidden ''constructor'' (Ref 13)],
       constructor_object 3 ''BigInt'' 1 12,
       \<comment> \<open>14: Array.prototype, 15: Array\<close>
       array_object (Some 0) [hidden ''length'' (of_length 0), hidden ''constructor'' (Ref 15)],
       constructor_object 3 ''Array'' 1 14,
       \<comment> \<open>16: Promise.prototype, 17: Promise\<close>
       ordinary (Some 0) [hidden ''constructor'' (Ref 17)],
       constructor_object 3 ''Promise'' 1 16,
       \<comment> \<open>18: the value of Promise.resolve()\<close>
       ordinary (Some 16) [],
       \<comment> \<open>19: the array [1, 2]\<close>
       array_object (Some 14)
         [shown ''0'' (Num (Fin 1)), shown ''1'' (Num (Fin 2)), hidden ''length'' (of_length 2)],
       \<comment> \<open>20: function () {}, 21: its prototype object\<close>
       constructor_object 3 [] 0 21,
       ordinary (Some 0) [hidden ''constructor'' (Ref 20)],
       \<comment> \<open>22: class Base {}, 23: Base.prototype\<close>
       constructor_object 3 ''Base'' 0 23,
       ordinary (Some 0) [hidden ''constructor'' (Ref 22)],
       \<comment> \<open>24: class Sub extends Base {}, 25: Sub.prototype\<close>
       constructor_object 22 ''Sub'' 0 25,
       ordinary (Some 23) [hidden ''constructor'' (Ref 24)],
       \<comment> \<open>26: class Other {}, 27: Other.prototype\<close>
       constructor_object 3 ''Other'' 0 27,
       ordinary (Some 0) [hidden ''constructor'' (Ref 26)],
       \<comment> \<open>28 and 29: two object literals {}\<close>
       ordinary (Some 0) [],
       ordinary (Some 0) [],
       \<comment> \<open>30: the object literal {a: 1}\<close>
       ordinary (Some 0) [shown ''a'' (Num (Fin 1))],
       \<comment> \<open>31: the proxy of Proxy.revocable([], {}) after revoke()\<close>
       proxy_object RevokedProxy,
       \<comment> \<open>32: new Proxy(the array 19, {})\<close>
       proxy_object (LiveProxy 19),
       \<comment> \<open>33: a live proxy, with no traps, whose target is the revoked proxy 31\<close>
       proxy_object (LiveProxy 31) ]"

definition realm_heap :: "addr \<Rightarrow> jsobj" where
  "realm_heap a = (if a < length realm_objects then realm_objects ! a else ordinary None [])"

definition realm :: js_state where
  "realm = \<lparr>heap = realm_heap, booleanProto = 8, numberProto = 4, stringProto = 6,
             bigintProto = 12, symbolProto = 10, globals = (\<lambda>x. None)\<rparr>"

section \<open>Basic facts\<close>

lemma num_eq_sym: "num_eq x y = num_eq y x"
  by (cases x; cases y) auto

lemma strict_eq_sym: "strict_eq a b = strict_eq b a"
  by (cases a; cases b) (auto simp: num_eq_sym)

lemma isNumber_iff: "isNumber st v = (\<exists>n. v = Num n \<and> n \<noteq> NaN \<and> n \<noteq> PosInf \<and> n \<noteq> NegInf)"
proof (cases v)
  case (Num n)
  then show ?thesis by (cases n) (simp_all add: isNumber_def)
qed (simp_all add: isNumber_def)

lemma strict_eq_Num_left: "strict_eq (Num x) b \<Longrightarrow> \<exists>y. b = Num y"
  by (cases b) simp_all

lemma isNumber_self_eq: "isNumber st a \<Longrightarrow> strict_eq a a"
proof -
  assume "isNumber st a"
  then obtain n where "a = Num n" "n \<noteq> NaN" by (auto simp: isNumber_iff)
  then show ?thesis by (cases n) simp_all
qed

lemma isNumber_strict_eq: "isNumber st a \<Longrightarrow> strict_eq a b \<Longrightarrow> isNumber st b"
proof -
  assume na: "isNumber st a" and eq: "strict_eq a b"
  from na obtain x where a: "a = Num x" by (auto simp: isNumber_iff)
  with eq obtain y where b: "b = Num y" using strict_eq_Num_left by blast
  from eq a b have "num_eq x y" by simp
  with na show ?thesis unfolding a b isNumber_iff
    by (cases x; cases y) auto
qed

lemma typeof_tags:
  "typeof st v \<in> {''number'', ''string'', ''boolean'', ''function'', ''object'', ''bigint'',
     ''symbol'', ''undefined''}"
  by (cases v) simp_all

section \<open>Equality\<close>

text \<open>
  C1. \<^verbatim>\<open>isEquals(NaN, NaN)\<close> is to be true. The source enters its numeric branch only
  when \<^verbatim>\<open>isNumber(a)\<close> holds, and \<^verbatim>\<open>isNumber\<close> rejects NaN, so the test
  \<^verbatim>\<open>(a !== a) && (b !== b)\<close> written for NaN is never reached with a NaN: the call falls
  through to \<^verbatim>\<open>a === b\<close> and returns false, in every realm.
\<close>

theorem isEquals_NaN_NaN: "isEquals st (Num NaN) (Num NaN) = False"
  by (simp add: isEquals_def isNumber_def)

text \<open>The other sample equalities hold as stated.\<close>

lemma isEquals_samples:
  "isEquals st (Num (Fin 0)) (Num NegZero) = False"
  "isEquals st (Num (Fin 1)) (Num (Fin 1)) = True"
  "isEquals st (Str ''a'') (Str ''a'') = True"
  "a \<noteq> b \<Longrightarrow> isEquals st (Ref a) (Ref b) = False"
  by (simp_all add: isEquals_def isNumber_def num_div_def signed_inf_def signed_fin_def)

text \<open>
  C10. \<^verbatim>\<open>isEquals\<close> is symmetric, \<open>isEquals(a, b) = isEquals(b, a)\<close> for all values,
  although only the first argument selects the branch.
\<close>

theorem isEquals_symmetric: "isEquals st a b = isEquals st b a"
proof (cases "strict_eq a b")
  case False
  then have "\<not> strict_eq b a" by (simp add: strict_eq_sym)
  with False show ?thesis
    by (auto simp: isEquals_def dest: isNumber_self_eq)
next
  case True
  then have ba: "strict_eq b a" by (simp add: strict_eq_sym)
  show ?thesis
  proof (cases "isNumber st a")
    case na: True
    from na True have "isNumber st b" by (rule isNumber_strict_eq)
    with na True ba show ?thesis
      by (simp add: isEquals_def strict_eq_sym)
  next
    case nna: False
    have "\<not> isNumber st b"
    proof
      assume "isNumber st b"
      then have "isNumber st a" using ba by (rule isNumber_strict_eq)
      with nna show False by simp
    qed
    with nna show ?thesis by (simp add: isEquals_def strict_eq_sym)
  qed
qed

section \<open>Definedness and numbers\<close>

text \<open>
  C8. No value is both null and undefined (so exactly one of \<^verbatim>\<open>isNull\<close>,
  \<^verbatim>\<open>isUndefined\<close>, neither holds); \<^verbatim>\<open>isEmpty\<close> is their disjunction; \<^verbatim>\<open>isDefined\<close> is
  the negation of \<^verbatim>\<open>isEmpty\<close>.
\<close>

theorem definedness_partition:
  "\<not> (isNull v \<and> isUndefined v)
   \<and> isEmpty v = (isNull v \<or> isUndefined v)
   \<and> isDefined v = (\<not> isEmpty v)"
  by (cases v) (simp_all add: isNull_def isUndefined_def isEmpty_def isDefined_def)

text \<open>
  C9. \<^verbatim>\<open>isNumber\<close> and \<^verbatim>\<open>isFiniteNumber\<close> agree on every value; they hold exactly for
  the finite numbers (negative zero among them) and fail for NaN and both infinities.
\<close>

theorem isNumber_eq_isFiniteNumber:
  "isNumber st v = isFiniteNumber st v
   \<and> isNumber st v = (v = Num NegZero \<or> (\<exists>q. v = Num (Fin q)))
   \<and> isNumber st (Num NaN) = False \<and> isFiniteNumber st (Num NaN) = False
   \<and> isNumber st (Num PosInf) = False \<and> isFiniteNumber st (Num PosInf) = False
   \<and> isNumber st (Num NegInf) = False \<and> isFiniteNumber st (Num NegInf) = False"
proof -
  have "isNumber st v = (v = Num NegZero \<or> (\<exists>q. v = Num (Fin q)))"
  proof (cases v)
    case (Num n)
    then show ?thesis by (cases n) (simp_all add: isNumber_def)
  qed (simp_all add: isNumber_def)
  then show ?thesis by (simp add: isNumber_def isFiniteNumber_def)
qed

section \<open>The dispatcher\<close>

lemma unwraps_unwrap: "unwraps h a b \<Longrightarrow> unwrap h a = Some b"
proof (induction rule: unwraps.induct)
  case (unwraps_object h a)
  then show ?case by (subst unwrap.simps) simp
next
  case (unwraps_revoked h a)
  then show ?case by (subst unwrap.simps) simp
next
  case (unwraps_live h a t b)
  then show ?case by (subst unwrap.simps) simp
qed

text \<open>
  When \<^verbatim>\<open>Array.isArray\<close> returns: on every value that is not an object, and on an object
  unless the chain of proxy targets ends in a revoked proxy.
\<close>

lemma isArray_primitive: "(\<And>a. v \<noteq> Ref a) \<Longrightarrow> isArray st v = ret False"
  by (cases v) auto

lemma isArray_object:
  "unwraps (heap st) a b \<Longrightarrow>
   isArray st (Ref a) =
     (if proxy (heap st b) = RevokedProxy then throw TypeError else ret (is_array (heap st b)))"
  by (simp add: behind_proxies_def unwraps_unwrap)

lemma typeis_object:
  "unwraps (heap st) a b \<Longrightarrow>
   typeis st (Ref a) =
     (if proxy (heap st b) = RevokedProxy then throw TypeError
      else ret (if is_array (heap st b) then ''array'' else typeof st (Ref a)))"
proof -
  assume u: "unwraps (heap st) a b"
  show ?thesis
    unfolding typeis_def isArray_object [OF u]
    by (simp add: isNull_def and_then_def ret_def throw_def)
qed

text \<open>
  C2. On every value on which \<^verbatim>\<open>isArray\<close> returns, \<^verbatim>\<open>typeis\<close> returns: \<^verbatim>\<open>"null"\<close> when
  \<^verbatim>\<open>isNull\<close> holds, else \<^verbatim>\<open>"array"\<close> when \<^verbatim>\<open>isArray\<close> holds, else the \<^verbatim>\<open>typeof\<close> tag,
  which is one of ten tags (two of the dispatcher's own and the eight of \<^verbatim>\<open>typeof\<close>).
  \<^verbatim>\<open>isArray\<close> returns on every value that is not an object, and on an object whose
  chain of proxy targets is finite and does not end in a revoked proxy; on a null it is
  not called. The sample values get the tags the specification lists.
\<close>

theorem typeis_total:
  "(isArray st v = ret arr \<longrightarrow>
      typeis st v = ret (if isNull v then ''null'' else if arr then ''array'' else typeof st v)
      \<and> (if isNull v then ''null'' else if arr then ''array'' else typeof st v)
          \<in> {''null'', ''array'', ''number'', ''string'', ''boolean'', ''function'',
             ''object'', ''bigint'', ''symbol'', ''undefined''})
   \<and> ((\<forall>a. v \<noteq> Ref a) \<longrightarrow> isArray st v = ret False)
   \<and> (unwraps (heap st) a b \<longrightarrow> proxy (heap st b) \<noteq> RevokedProxy \<longrightarrow>
        isArray st (Ref a) = ret (is_array (heap st b)))
   \<and> typeis st Null = ret ''null''
   \<and> typeis realm (Ref 19) = ret ''array''
   \<and> typeis st (Num (Fin 42)) = ret ''number''
   \<and> typeis st (Str ''x'') = ret ''string''
   \<and> typeis st Undefined = ret ''undefined''
   \<and> typeis realm (Ref 20) = ret ''function''"
proof -
  have tag: "(if isNull v then ''null'' else if arr then ''array'' else typeof st v)
      \<in> {''null'', ''array'', ''number'', ''string'', ''boolean'', ''function'',
         ''object'', ''bigint'', ''symbol'', ''undefined''}"
    using typeof_tags [of st v] by auto
  have dispatch: "isArray st v = ret arr \<Longrightarrow>
      typeis st v = ret (if isNull v then ''null'' else if arr then ''array'' else typeof st v)"
    by (simp add: typeis_def and_then_def ret_def)
  have prim: "(\<forall>a. v \<noteq> Ref a) \<longrightarrow> isArray st v = ret False"
    by (simp add: isArray_primitive)
  have obj: "unwraps (heap st) a b \<longrightarrow> proxy (heap st b) \<noteq> RevokedProxy \<longrightarrow>
        isArray st (Ref a) = ret (is_array (heap st b))"
    by (simp add: behind_proxies_def unwraps_unwrap)
  have s1: "typeis realm (Ref 19) = ret ''array''" by code_simp
  have s2: "typeis realm (Ref 20) = ret ''function''" by code_simp
  have s3: "typeis st Null = ret ''null''"
    "typeis st (Num (Fin 42)) = ret ''number''"
    "typeis st (Str ''x'') = ret ''string''"
    "typeis st Undefined = ret ''undefined''"
    by (simp_all add: typeis_def isNull_def and_then_def ret_def)
  from tag dispatch prim obj s1 s2 s3 show ?thesis by blast
qed

text \<open>
  In the realm: the number 42 is not an object; the proxy 32 forwards to the array 19.
\<close>

theorem typeis_total_witness:
  "isArray realm (Num (Fin 42)) = ret False
   \<and> typeis realm (Num (Fin 42)) = ret ''number''
   \<and> unwraps (heap realm) 32 19
   \<and> proxy (heap realm 19) \<noteq> RevokedProxy
   \<and> isArray realm (Ref 32) = ret True
   \<and> typeis realm (Ref 32) = ret ''array''"
proof -
  have n: "\<forall>a. Num (Fin 42) \<noteq> Ref a" by simp
  have p32: "proxy (heap realm 32) = LiveProxy 19" by code_simp
  have p19: "proxy (heap realm 19) = NotProxy" by code_simp
  have a19: "is_array (heap realm 19)" by code_simp
  have "unwraps (heap realm) 19 19" using p19 by (rule unwraps_object)
  with p32 have u: "unwraps (heap realm) 32 19" by (rule unwraps_live)
  have live: "proxy (heap realm 19) \<noteq> RevokedProxy" using p19 by simp
  from typeis_total [of realm "Num (Fin 42)" False 32 19] n
  have num: "isArray realm (Num (Fin 42)) = ret False"
    "typeis realm (Num (Fin 42)) = ret ''number''"
    by (simp_all add: isNull_def)
  from typeis_total [of realm "Ref 32" True 32 19] u live a19
  have prx: "isArray realm (Ref 32) = ret True" "typeis realm (Ref 32) = ret ''array''"
    by (simp_all add: isNull_def)
  from num prx u live show ?thesis by simp
qed

text \<open>
  Two ways the claim as stated fails. The call does not return on every value: on a
  revoked proxy (directly, or behind a live proxy) the TypeError of \<^verbatim>\<open>Array.isArray\<close>
  is the outcome. And the tags are ten, not nine: ten values of the realm get ten
  different results.
\<close>

theorem typeis_revoked_proxy_and_ten_results:
  "typeis realm (Ref 31) = throw TypeError
   \<and> typeis realm (Ref 33) = throw TypeError
   \<and> card (typeis realm ` {Null, Ref 19, Num (Fin 42), Str ''x'', Bool True, Ref 20, Ref 28,
       BigInt 1, Symbol 0, Undefined}) = 10"
  by code_simp

section \<open>isFloat\<close>

text \<open>
  C3. Every exported one-argument predicate is to return a boolean without throwing.
  \<^verbatim>\<open>isFloat\<close> does not: in any realm whose global object has no binding named
  \<^verbatim>\<open>value\<close>, it throws a ReferenceError on every argument.
\<close>

theorem isFloat_raises:
  "isFloat (st\<lparr>globals := (globals st)(''value'' := None)\<rparr>) v = Inl ReferenceError"
  by (simp add: isFloat_def)

text \<open>
  C4. \<^verbatim>\<open>isFloat(3.5)\<close> is to be true and \<^verbatim>\<open>isFloat(3)\<close> false. In the source the two
  calls have the same outcome in every realm, because the argument is never read; in the
  standard realm that outcome is a ReferenceError.
\<close>

theorem isFloat_ignores_argument:
  "isFloat st (Num (Fin (7 / 2))) = isFloat st (Num (Fin 3))
   \<and> isFloat realm (Num (Fin (7 / 2))) = Inl ReferenceError"
  by (simp add: isFloat_def realm_def)

section \<open>isPromise\<close>

lemma isPromise_needs_function: "\<not> isFunction st v \<Longrightarrow> isPromise st v = ret False"
  by (simp add: isPromise_def)

text \<open>
  C5. \<^verbatim>\<open>isPromise(v)\<close> is to hold exactly when the constructor name of \<^verbatim>\<open>v\<close> is
  \<^verbatim>\<open>"Promise"\<close>. The value of \<^verbatim>\<open>Promise.resolve()\<close> has that constructor name, and the
  source answers false for it, since a promise is not a function.
\<close>

theorem isPromise_of_promise:
  "getConstructorName realm (Ref 18) = ret (Str ''Promise'')
   \<and> isPromise realm (Ref 18) = ret False"
  by code_simp

section \<open>isZeroValue\<close>

text \<open>
  A number is never reported as non-zero: whatever \<^verbatim>\<open>length\<close> gives, \<^verbatim>\<open>Object.keys\<close> of
  a number is the empty array.
\<close>

lemma isZeroValue_number: "isZeroValue st (Num n) \<noteq> ret False"
  by (auto simp: isZeroValue_def and_then_def ret_def of_length_def
      split: option.splits sum.splits)

lemma isNonZeroValue_complement:
  "isZeroValue st v = ret z \<Longrightarrow> isNonZeroValue st v = ret (\<not> z)"
  by (simp add: isNonZeroValue_def and_then_def ret_def)

text \<open>
  C6. Non-zero numbers such as 5 and primitives such as \<^verbatim>\<open>true\<close> are not to be zero
  values. The source returns true for both: its last disjunct applies \<^verbatim>\<open>Object.keys\<close> to
  any value, and a number or a boolean has no own enumerable keys.
\<close>

theorem isZeroValue_five:
  "isZeroValue realm (Num (Fin 5)) = ret True \<and> isZeroValue realm (Bool True) = ret True"
  by code_simp

section \<open>isExtendOf\<close>






text \<open>Unrelated constructors, and a base against its subclass, give false.\<close>

lemma isExtendOf_unrelated:
  "isExtendOf realm (Ref 24) (Ref 26) = ret False"
  "isExtendOf realm (Ref 22) (Ref 24) = ret False"
  by code_simp+

end
